theory Spec2Isabelle
  imports Main "HOL-Library.Word"
begin

section \<open>JavaScript values\<close>

text \<open>
  A JavaScript string is a sequence of UTF-16 code units. The literals of the source are
  ASCII, so \<open>ascii\<close> turns an Isabelle string literal into the JavaScript string with the
  same characters.
\<close>

type_synonym code_unit = "16 word"
type_synonym jsstring = "code_unit list"

definition ascii :: "string \<Rightarrow> jsstring" where
  "ascii s = map (\<lambda>c. of_nat (of_char c)) s"

datatype js_error = TypeError | SyntaxError

text \<open>
  A number is an IEEE double, kept as data only (no arithmetic is done on it here):
  not-a-number, an infinity with its sign, or sign, mantissa and binary exponent.
\<close>

datatype jsnum = NaN | Infinity bool | Finite bool nat int

text \<open>
  The values \<open>JSON.parse\<close> can produce, and \<open>undefined\<close>, which reading a missing
  property produces. An object is the list of its own enumerable properties in
  enumeration order.
\<close>

datatype jsval =
    Undefined
  | Null
  | Bool bool
  | Num jsnum
  | Str jsstring
  | Arr "jsval list"
  | Obj "(jsstring \<times> jsval) list"

fun num_truthy :: "jsnum \<Rightarrow> bool" where
  "num_truthy NaN = False"
| "num_truthy (Infinity s) = True"
| "num_truthy (Finite s m e) = (m \<noteq> 0)"

text \<open>ToBoolean, as used by \<open>if\<close>, \<open>!\<close>, \<open>&&\<close>, \<open>||\<close> and \<open>? :\<close>.\<close>

fun truthy :: "jsval \<Rightarrow> bool" where
  "truthy Undefined = False"
| "truthy Null = False"
| "truthy (Bool b) = b"
| "truthy (Num n) = num_truthy n"
| "truthy (Str s) = (s \<noteq> [])"
| "truthy (Arr xs) = True"
| "truthy (Obj ps) = True"

text \<open>A nullable string column as a JavaScript value.\<close>

fun nullable :: "jsstring option \<Rightarrow> jsval" where
  "nullable None = Null"
| "nullable (Some s) = Str s"

text \<open>\<open>a || b\<close> on values.\<close>

definition or_else :: "jsval \<Rightarrow> jsval \<Rightarrow> jsval" where
  "or_else a b = (if truthy a then a else b)"

text \<open>
  \<open>String.prototype.trim\<close> removes WhiteSpace and LineTerminator code points from both
  ends: TAB, VT, FF, ZWNBSP, the category Zs (SP, NBSP, U+1680, U+2000 to U+200A, U+202F,
  U+205F, U+3000), and LF, CR, LS, PS. All of them are single code units.
\<close>

definition isWhiteSpaceOrLineTerminator :: "code_unit \<Rightarrow> bool" where
  "isWhiteSpaceOrLineTerminator c \<longleftrightarrow> c \<in> set
     [0x0009, 0x000B, 0x000C, 0xFEFF,
      0x0020, 0x00A0, 0x1680,
      0x2000, 0x2001, 0x2002, 0x2003, 0x2004, 0x2005, 0x2006, 0x2007, 0x2008, 0x2009, 0x200A,
      0x202F, 0x205F, 0x3000,
      0x000A, 0x000D, 0x2028, 0x2029]"

definition trim :: "jsstring \<Rightarrow> jsstring" where
  "trim s = rev (dropWhile isWhiteSpaceOrLineTerminator
              (rev (dropWhile isWhiteSpaceOrLineTerminator s)))"

text \<open>
  \<open>new Set(xs)\<close> adds the elements in order and ignores one that is already a member, so
  the set keeps each value at its first position; \<open>Array.from\<close> lists the set in that
  order.
\<close>

definition Set_add :: "'a list \<Rightarrow> 'a \<Rightarrow> 'a list" where
  "Set_add s x = (if x \<in> set s then s else s @ [x])"

definition new_Set :: "'a list \<Rightarrow> 'a list" where
  "new_Set xs = foldl Set_add [] xs"

definition Array_from :: "'a list \<Rightarrow> 'a list" where
  "Array_from s = s"

text \<open>The canonical decimal string of an array index.\<close>

fun decimal :: "nat \<Rightarrow> jsstring" where
  "decimal n =
     (if n < 10 then [of_nat (48 + n)]
      else decimal (n div 10) @ [of_nat (48 + n mod 10)])"

text \<open>
  Reading a property \<open>v.k\<close>, for the names this program reads from decoded JSON
  (\<open>summary\<close>, \<open>potentialDangers\<close>, \<open>overallAssessment\<close>): none of them is a property of a
  built-in prototype, so the read gives the own property of an object and \<open>undefined\<close>
  elsewhere, and throws on \<open>undefined\<close> and \<open>null\<close>.
\<close>

fun member :: "jsval \<Rightarrow> jsstring \<Rightarrow> js_error + jsval" where
  "member Undefined k = Inl TypeError"
| "member Null k = Inl TypeError"
| "member (Obj ps) k = Inr (case map_of ps k of Some v \<Rightarrow> v | None \<Rightarrow> Undefined)"
| "member v k = Inr Undefined"

text \<open>
  \<open>Object.entries(v)\<close>: throws on \<open>undefined\<close> and \<open>null\<close>; an object gives its properties,
  an array and a string their indexed elements, a boolean and a number nothing.
\<close>

fun Object_entries :: "jsval \<Rightarrow> js_error + (jsstring \<times> jsval) list" where
  "Object_entries Undefined = Inl TypeError"
| "Object_entries Null = Inl TypeError"
| "Object_entries (Obj ps) = Inr ps"
| "Object_entries (Arr xs) = Inr (zip (map decimal [0..<length xs]) xs)"
| "Object_entries (Str s) = Inr (zip (map decimal [0..<length s]) (map (\<lambda>c. Str [c]) s))"
| "Object_entries (Bool b) = Inr []"
| "Object_entries (Num n) = Inr []"

text \<open>
  \<open>v.map(f)\<close> with a callback of element and index. Only an array has a callable \<open>map\<close>:
  on \<open>undefined\<close> and \<open>null\<close> the property read throws, and on every other value \<open>map\<close> is
  \<open>undefined\<close> or plain data, so the call throws.
\<close>

fun call_map :: "jsval \<Rightarrow> (jsval \<Rightarrow> nat \<Rightarrow> 'b) \<Rightarrow> js_error + 'b list" where
  "call_map (Arr xs) f = Inr (map (\<lambda>(x, i). f x i) (zip xs [0..<length xs]))"
| "call_map v f = Inl TypeError"

section \<open>The platform\<close>

text \<open>
  Built-ins of the runtime that the pages call and that are not part of the repository.
  \<open>JSON_parse\<close> is \<open>JSON.parse\<close> (\<open>Inl\<close> when it throws); \<open>URL_host s\<close> is
  \<open>new URL(s).host\<close> (\<open>Inl\<close> when the constructor throws);
  \<open>Date_toLocaleDateString s\<close> is \<open>new Date(s).toLocaleDateString()\<close>, which depends on
  locale and time zone and does not throw; \<open>String_toLowerCase\<close> is
  \<open>String.prototype.toLowerCase\<close>.
\<close>

record platform =
  JSON_parse :: "jsstring \<Rightarrow> js_error + jsval"
  URL_host :: "jsstring \<Rightarrow> js_error + jsstring"
  Date_toLocaleDateString :: "jsstring \<Rightarrow> jsstring"
  String_toLowerCase :: "jsstring \<Rightarrow> jsstring"

section \<open>Rows and query outcomes\<close>

text \<open>
  What awaiting a query gives: the promise rejects, or it resolves to \<open>{ data, error }\<close>,
  each of which may be \<open>null\<close>.
\<close>

record pg_error =
  message :: jsstring

datatype 'a query_outcome = Rejected | Resolved "'a option" "pg_error option"

text \<open>
  A row of \<open>select('site_name')\<close>, and the full row of \<open>websites\<close> extending it. The
  code calls \<open>trim\<close> on \<open>site_name\<close> and passes \<open>url\<close> to \<open>new URL\<close> as strings; the
  columns it tests before use are nullable.
\<close>

record name_row =
  site_name :: jsstring

record 'id website_row = name_row +
  row_id :: 'id
  website_description :: jsstring
  logo_svg :: "jsstring option"
  url :: jsstring
  category :: "jsstring option"
  last_crawled :: "jsstring option"

record 'id tos_row =
  website_id :: 'id
  tos_url :: "jsstring option"
  simplified_content :: "jsstring option"

section \<open>Path discovery: getStaticPaths\<close>

record route_params =
  slug :: jsstring

record static_path =
  params :: route_params

datatype fallback_policy = Fallback bool | Blocking

record static_paths_result =
  paths :: "static_path list"
  fallback :: fallback_policy

text \<open>
  The argument is the outcome of \<open>await supabase.from('websites').select('site_name')\<close>.
  A rejection is caught by the \<open>try\<close> block. Logging is left out.
\<close>

definition getStaticPaths :: "name_row list query_outcome \<Rightarrow> static_paths_result" where
  "getStaticPaths outcome =
     (case outcome of
        Rejected \<Rightarrow> \<lparr>paths = [], fallback = Blocking\<rparr>
      | Resolved websites error \<Rightarrow>
          if error \<noteq> None then \<lparr>paths = [], fallback = Blocking\<rparr>
          else (case websites of
            None \<Rightarrow> \<lparr>paths = [], fallback = Blocking\<rparr>
          | Some ws \<Rightarrow>
              let ps = filter (\<lambda>path. truthy (Str (slug (params path))))
                         (map (\<lambda>w. \<lparr>params = \<lparr>slug = trim (site_name w)\<rparr>\<rparr>) ws);
                  uniquePaths = map (\<lambda>s. \<lparr>params = \<lparr>slug = s\<rparr>\<rparr>)
                                  (Array_from (new_Set (map (\<lambda>path. slug (params path)) ps)))
              in \<lparr>paths = uniquePaths, fallback = Blocking\<rparr>))"

section \<open>Per-route prop resolution: getStaticProps\<close>

record parsed_query =
  query_slug :: "jsstring option"

record 'id page_props =
  website :: "'id website_row"
  termsOfService :: "'id tos_row option"

datatype 'id static_props_result =
    notFound
  | props_bundle "'id page_props" "nat option"

text \<open>
  \<open>from_websites s\<close> is the outcome of the query for the row of \<open>websites\<close> whose
  \<open>site_name\<close> is \<open>s\<close>, and \<open>from_terms_of_service i\<close> of the query for the row of
  \<open>terms_of_service\<close> whose \<open>website_id\<close> is \<open>i\<close>. The second component of a bundle is
  its \<open>revalidate\<close> field, \<open>None\<close> when the returned object has none. A rejection of
  either query is caught by the \<open>try\<close> block.
\<close>

definition getStaticProps ::
  "(jsstring \<Rightarrow> 'id website_row query_outcome) \<Rightarrow> ('id \<Rightarrow> 'id tos_row query_outcome) \<Rightarrow>
   parsed_query option \<Rightarrow> 'id static_props_result" where
  "getStaticProps from_websites from_terms_of_service context_params =
     (case context_params of
        None \<Rightarrow> notFound
      | Some ps \<Rightarrow>
          (case query_slug ps of
             None \<Rightarrow> notFound
           | Some s \<Rightarrow>
               if \<not> truthy (Str s) then notFound
               else (case from_websites s of
                 Rejected \<Rightarrow> notFound
               | Resolved data websiteError \<Rightarrow>
                   if websiteError \<noteq> None then notFound
                   else (case data of
                     None \<Rightarrow> notFound
                   | Some w \<Rightarrow>
                       (case from_terms_of_service (row_id w) of
                          Rejected \<Rightarrow> notFound
                        | Resolved tos termsOfServiceError \<Rightarrow>
                            if termsOfServiceError \<noteq> None
                            then props_bundle \<lparr>website = w, termsOfService = None\<rparr> None
                            else props_bundle \<lparr>website = w, termsOfService = tos\<rparr>
                                   (Some 18000))))))"

section \<open>Element trees\<close>

text \<open>
  What a component returns: an element with its tag or component name, its attributes and
  its children; a fragment; literal JSX text; an embedded expression \<open>{v}\<close> that is a
  value; an embedded array of nodes (the result of a \<open>map\<close>). Styling attributes
  (\<open>className\<close>, \<open>style\<close>) are left out.
\<close>

datatype node =
    Element string "(string \<times> jsval) list" "node list"
  | Fragment "node list"
  | Text string
  | Expr jsval
  | Nodes "node list"

text \<open>\<open>v && n\<close> where \<open>n\<close> is an element: the element if \<open>v\<close> is truthy, else the value \<open>v\<close>.\<close>

definition jsx_and :: "jsval \<Rightarrow> node \<Rightarrow> node" where
  "jsx_and v n = (if truthy v then n else Expr v)"

text \<open>\<open>v && n\<close> where \<open>v\<close> is a nullable string that the element \<open>n\<close> uses.\<close>

definition and_element :: "jsstring option \<Rightarrow> (jsstring \<Rightarrow> node) \<Rightarrow> node" where
  "and_element v f =
     (case v of
        None \<Rightarrow> Expr Null
      | Some s \<Rightarrow> if truthy (Str s) then f s else Expr (Str s))"

text \<open>Observations on a tree: the elements with a given name, and the literal texts, in
  document order; an attribute of an element.\<close>

fun elements_named :: "string \<Rightarrow> node \<Rightarrow> node list" where
  "elements_named t (Element n as cs) =
     (if n = t then [Element n as cs] else []) @ concat (map (elements_named t) cs)"
| "elements_named t (Fragment cs) = concat (map (elements_named t) cs)"
| "elements_named t (Nodes cs) = concat (map (elements_named t) cs)"
| "elements_named t (Text s) = []"
| "elements_named t (Expr v) = []"

fun texts :: "node \<Rightarrow> string list" where
  "texts (Element n as cs) = concat (map texts cs)"
| "texts (Fragment cs) = concat (map texts cs)"
| "texts (Nodes cs) = concat (map texts cs)"
| "texts (Text s) = [s]"
| "texts (Expr v) = []"

fun attribute :: "string \<Rightarrow> node \<Rightarrow> jsval option" where
  "attribute a (Element n as cs) = map_of as a"
| "attribute a other = None"

section \<open>The detail page: WebsitePage\<close>

text \<open>The \<open>try\<close> block that decodes \<open>termsOfService?.simplified_content\<close>; the \<open>catch\<close>
  leaves \<open>simplifiedContent\<close> at \<open>null\<close>.\<close>

definition parse_simplified_content :: "platform \<Rightarrow> 'id tos_row option \<Rightarrow> jsval" where
  "parse_simplified_content pf termsOfService' =
     (case termsOfService' of
        None \<Rightarrow> Null
      | Some t \<Rightarrow>
          (case simplified_content t of
             None \<Rightarrow> Null
           | Some s \<Rightarrow>
               if truthy (Str s)
               then (case JSON_parse pf s of Inl e \<Rightarrow> Null | Inr v \<Rightarrow> v)
               else Null))"

definition summary_entry :: "jsstring \<times> jsval \<Rightarrow> node" where
  "summary_entry kv =
     (case kv of (key, val) \<Rightarrow>
        Element ''p'' [(''key'', Str key)]
          [Element ''strong'' [] [Expr (Str key), Text '':''], Text '' '', Expr val])"

definition danger_item :: "jsval \<Rightarrow> nat \<Rightarrow> node" where
  "danger_item danger index =
     Element ''li'' [(''key'', Num (Finite False index 0))] [Expr danger]"

text \<open>The contents of the \<open>prose\<close> block: the three sections of the decoded summary, or
  the placeholder.\<close>

definition overview :: "jsval \<Rightarrow> js_error + node" where
  "overview simplifiedContent =
     (if truthy simplifiedContent then
        (case member simplifiedContent (ascii ''summary'') of
           Inl e \<Rightarrow> Inl e
         | Inr summary \<Rightarrow>
        (case Object_entries summary of
           Inl e \<Rightarrow> Inl e
         | Inr entries \<Rightarrow>
        (case member simplifiedContent (ascii ''potentialDangers'') of
           Inl e \<Rightarrow> Inl e
         | Inr potentialDangers \<Rightarrow>
        (case call_map potentialDangers danger_item of
           Inl e \<Rightarrow> Inl e
         | Inr items \<Rightarrow>
        (case member simplifiedContent (ascii ''overallAssessment'') of
           Inl e \<Rightarrow> Inl e
         | Inr overallAssessment \<Rightarrow>
             Inr (Fragment
               [Element ''h3'' [] [Text ''Summary''],
                Nodes (map summary_entry entries),
                Element ''h3'' [] [Text ''Potential Dangers''],
                Element ''ul'' [] [Nodes items],
                Element ''h3'' [] [Text ''Overall Assessment''],
                Element ''p'' [] [Expr overallAssessment]]))))))
      else Inr (Element ''p'' [] [Text ''Loading content...'']))"

text \<open>The details panel.\<close>

definition details :: "platform \<Rightarrow> 'id website_row \<Rightarrow> 'id tos_row option \<Rightarrow> js_error + node" where
  "details pf w termsOfService' =
     (case URL_host pf (url w) of
        Inl e \<Rightarrow> Inl e
      | Inr host \<Rightarrow>
          Inr (Element ''div'' []
            [Element ''h2'' [] [Text ''Details''],
             Element ''div'' []
               [Element ''div'' []
                  [Element ''span'' [] [Text ''Website''],
                   Element ''a''
                     [(''href'', Str (url w)), (''target'', Str (ascii ''_blank'')),
                      (''rel'', Str (ascii ''noreferrer''))]
                     [Expr (Str host)]],
                Element ''div'' []
                  [Element ''span'' [] [Text ''Terms of Service''],
                   Element ''a''
                     [(''href'',
                       or_else (case termsOfService' of
                                  None \<Rightarrow> Undefined
                                | Some t \<Rightarrow> nullable (tos_url t)) (Str [])),
                      (''target'', Str (ascii ''_blank'')),
                      (''rel'', Str (ascii ''noreferrer''))]
                     [Element ''span'' []
                        [Element ''span'' [] [Text ''View''],
                         Element ''IconExternalLink'' [(''size'', Str (ascii ''small''))] []]]],
                and_element (category w) (\<lambda>c.
                  Element ''div'' []
                    [Element ''span'' [] [Text ''Category''],
                     Element ''span'' [] [Expr (Str c)]]),
                and_element (last_crawled w) (\<lambda>d.
                  Element ''div'' []
                    [Element ''span'' [] [Text ''Last Crawled''],
                     Element ''span'' [] [Expr (Str (Date_toLocaleDateString pf d))]])]]))"

text \<open>
  The component. The expressions of the returned tree are evaluated in source order, so
  the overview is built before \<open>new URL(website.url)\<close> runs; a throw of either leaves
  the component.
\<close>

definition WebsitePage ::
  "platform \<Rightarrow> 'id website_row option \<Rightarrow> 'id tos_row option \<Rightarrow> js_error + node" where
  "WebsitePage pf website' termsOfService' =
     (case website' of
        None \<Rightarrow> Inr (Element ''NotFound'' [] [])
      | Some w \<Rightarrow>
          let simplifiedContent = parse_simplified_content pf termsOfService' in
          (case overview simplifiedContent of
             Inl e \<Rightarrow> Inl e
           | Inr prose \<Rightarrow>
          (case details pf w termsOfService' of
             Inl e \<Rightarrow> Inl e
           | Inr panel \<Rightarrow>
               Inr (Fragment
                 [Element ''Head'' []
                    [Element ''title'' [] [Expr (Str (site_name w)), Text '' | TOS Buddy''],
                     Element ''meta''
                       [(''name'', Str (ascii ''description'')),
                        (''content'', Str (website_description w))] []],
                  Element ''Layout'' []
                    [Element ''SectionContainer'' []
                       [Element ''div'' []
                          [Element ''Link'' [(''href'', Str (ascii ''/websites''))]
                             [Element ''IconChevronLeft'' [] [], Text ''Back''],
                           Element ''div'' []
                             [and_element (logo_svg w) (\<lambda>src.
                                Element ''img''
                                  [(''src'', Str src),
                                   (''alt'', Str (site_name w @ ascii '' logo''))] []),
                              Element ''h1'' [] [Expr (Str (site_name w))]],
                           Element ''div'' []
                             [Element ''div'' []
                                [Element ''h2'' [] [Text ''Overview''],
                                 Element ''div'' [] [prose]],
                              panel]]]]]))))"

section \<open>The listing: WebsiteTileGrid\<close>

record website_tile =
  tile_slug :: jsstring
  title :: jsstring
  description :: jsstring
  logo :: jsstring

definition tile_card :: "website_tile \<Rightarrow> node" where
  "tile_card p =
     Element ''Link''
       [(''key'', Str (tile_slug p)), (''href'', Str (ascii ''/websites/'' @ tile_slug p))]
       [Element ''a'' []
          [Element ''div'' []
             [Element ''div'' []
                [Element ''div'' []
                   [Element ''Image''
                      [(''layout'', Str (ascii ''fixed'')),
                       (''width'', Num (Finite False 40 0)),
                       (''height'', Num (Finite False 40 0)),
                       (''src'', Str (logo p)), (''alt'', Str (title p))] []],
                 Element ''div'' []
                   [Element ''h3'' [] [Expr (Str (title p))],
                    Element ''p'' [] [Expr (Str (description p))]]]]]]"

text \<open>A callback applied to each element of an array, stopping at the first throw.\<close>

fun map_throwing :: "('a \<Rightarrow> js_error + 'b) \<Rightarrow> 'a list \<Rightarrow> js_error + 'b list" where
  "map_throwing f [] = Inr []"
| "map_throwing f (x # xs) =
     (case f x of
        Inl e \<Rightarrow> Inl e
      | Inr y \<Rightarrow> (case map_throwing f xs of Inl e \<Rightarrow> Inl e | Inr ys \<Rightarrow> Inr (y # ys)))"

definition Object_keys :: "(jsstring \<times> 'a) list \<Rightarrow> jsstring list" where
  "Object_keys obj = map fst obj"

text \<open>
  \<open>websitesByCategory\<close> is an object from category to array, given as its property list;
  \<open>hideCategories\<close> is optional and defaults to \<open>false\<close>. Reading a category that the
  object does not have gives \<open>undefined\<close>, whose \<open>map\<close> throws.
\<close>

definition WebsiteTileGrid ::
  "platform \<Rightarrow> (jsstring \<times> website_tile list) list \<Rightarrow> bool option \<Rightarrow> js_error + node" where
  "WebsiteTileGrid pf websitesByCategory hideCategories' =
     (let hideCategories = (case hideCategories' of None \<Rightarrow> False | Some b \<Rightarrow> b) in
      (case map_throwing (\<lambda>category.
              (case map_of websitesByCategory category of
                 None \<Rightarrow> Inl TypeError
               | Some ws \<Rightarrow>
                   Inr (Element ''div''
                     [(''key'', Str category), (''id'', Str (String_toLowerCase pf category))]
                     [jsx_and (Bool (\<not> hideCategories)) (Element ''h2'' [] [Expr (Str category)]),
                      Element ''div'' [] [Nodes (map tile_card ws)]])))
            (Object_keys websitesByCategory) of
         Inl e \<Rightarrow> Inl e
       | Inr sections \<Rightarrow> Inr (Fragment [Nodes sections])))"

section \<open>The layout wrapper: Layout\<close>

text \<open>
  \<open>hideHeader\<close> and \<open>hideFooter\<close> are optional and default to \<open>false\<close> and \<open>true\<close>. The
  effect that sets the colour mode runs after the tree is returned and is not part of it.
\<close>

definition Layout :: "bool option \<Rightarrow> bool option \<Rightarrow> node list \<Rightarrow> node" where
  "Layout hideHeader' hideFooter' children =
     (let hideHeader = (case hideHeader' of None \<Rightarrow> False | Some b \<Rightarrow> b);
          hideFooter = (case hideFooter' of None \<Rightarrow> True | Some b \<Rightarrow> b)
      in Fragment
           [jsx_and (Bool (\<not> hideHeader)) (Element ''Nav'' [] []),
            Element ''div'' []
              [Element ''main'' [] children,
               jsx_and (Bool (\<not> hideFooter)) (Element ''div'' [] [Element ''Footer'' [] []])]])"

section \<open>Observations and example data\<close>

text \<open>The route keys of a result of path discovery, in order.\<close>

definition route_keys :: "static_paths_result \<Rightarrow> jsstring list" where
  "route_keys r = map (\<lambda>path. slug (params path)) (paths r)"

text \<open>
  The answers of the platform at the inputs of the examples below, where it is used at
  these inputs only: \<open>JSON.parse\<close> of \<open>{}\<close>, of the summary document and of the malformed
  \<open>{\<close>; \<open>new URL\<close> of \<open>https://example.com/\<close>, and of the empty string and of
  \<open>not a url\<close>, neither of which is a URL; the date \<open>2024-01-02T00:00:00Z\<close> in the
  locale \<open>en-US\<close> at UTC; lower-casing of text without capitals.
\<close>

definition example_payload :: jsstring where
  \<open>example_payload = ascii
     ''{"summary":{"scope":"broad"},"potentialDangers":["data sharing"],"overallAssessment":"risky"}''\<close>

definition example_content :: jsval where
  "example_content = Obj
     [(ascii ''summary'', Obj [(ascii ''scope'', Str (ascii ''broad''))]),
      (ascii ''potentialDangers'', Arr [Str (ascii ''data sharing'')]),
      (ascii ''overallAssessment'', Str (ascii ''risky''))]"

definition example_platform :: platform where
  "example_platform =
     \<lparr>JSON_parse = (\<lambda>s. if s = ascii ''{}'' then Inr (Obj [])
                         else if s = example_payload then Inr example_content
                         else Inl SyntaxError),
      URL_host = (\<lambda>s. if s = ascii ''https://example.com/'' then Inr (ascii ''example.com'')
                       else Inl TypeError),
      Date_toLocaleDateString = (\<lambda>s. ascii ''1/2/2024''),
      String_toLowerCase = (\<lambda>s. s)\<rparr>"

definition example_website :: "nat website_row" where
  "example_website =
     \<lparr>site_name = ascii ''Example'', row_id = 7,
      website_description = ascii ''An example site'', logo_svg = None,
      url = ascii ''https://example.com/'', category = Some (ascii ''tools''),
      last_crawled = Some (ascii ''2024-01-02T00:00:00Z'')\<rparr>"

definition example_terms :: "jsstring option \<Rightarrow> nat tos_row" where
  "example_terms payload =
     \<lparr>website_id = 7, tos_url = Some (ascii ''https://example.com/terms''),
      simplified_content = payload\<rparr>"

definition example_tile :: "string \<Rightarrow> website_tile" where
  "example_tile name =
     \<lparr>tile_slug = ascii name, title = ascii name, description = ascii ''A site'',
      logo = ascii ''/logo.svg''\<rparr>"

section \<open>Path discovery\<close>

lemma set_foldl_Set_add: "set (foldl Set_add acc xs) = set acc \<union> set xs"
  by (induction xs arbitrary: acc) (auto simp: Set_add_def)

lemma distinct_foldl_Set_add: "distinct acc \<Longrightarrow> distinct (foldl Set_add acc xs)"
  by (induction xs arbitrary: acc) (auto simp: Set_add_def)

lemma set_new_Set: "set (new_Set xs) = set xs"
  by (simp add: new_Set_def set_foldl_Set_add)

lemma distinct_new_Set: "distinct (new_Set xs)"
  by (simp add: new_Set_def distinct_foldl_Set_add)

lemma route_keys_success:
  "route_keys (getStaticPaths (Resolved (Some ws) None)) =
     new_Set (filter (\<lambda>k. k \<noteq> []) (map (\<lambda>w. trim (site_name w)) ws))"
  by (simp add: route_keys_def getStaticPaths_def Array_from_def Let_def comp_def filter_map)

lemma route_keys_failure:
  "(\<forall>ws. outcome \<noteq> Resolved (Some ws) None) \<Longrightarrow> route_keys (getStaticPaths outcome) = []"
  by (auto simp: route_keys_def getStaticPaths_def split: query_outcome.splits option.splits)

lemma count_list_distinct: "distinct xs \<Longrightarrow> x \<in> set xs \<Longrightarrow> count_list xs x = 1"
  by (induction xs) auto

text \<open>
  C1. Whatever the query gives, the route keys of the result are pairwise different, none
  is empty, and each is the trimmed \<open>site_name\<close> of a fetched row; a row whose trimmed
  name is not empty has its key exactly once in the result, however many rows trim to it.
\<close>

theorem getStaticPaths_route_keys:
  "distinct (route_keys (getStaticPaths outcome)) \<and>
   (\<forall>k \<in> set (route_keys (getStaticPaths outcome)).
      k \<noteq> [] \<and>
      (\<exists>ws w. outcome = Resolved (Some ws) None \<and> w \<in> set ws \<and> k = trim (site_name w))) \<and>
   (\<forall>ws w. outcome = Resolved (Some ws) None \<and> w \<in> set ws \<and> trim (site_name w) \<noteq> [] \<longrightarrow>
      count_list (route_keys (getStaticPaths outcome)) (trim (site_name w)) = 1)"
proof (cases "\<exists>ws. outcome = Resolved (Some ws) None")
  case True
  then obtain ws where o: "outcome = Resolved (Some ws) None" by blast
  have k: "set (route_keys (getStaticPaths outcome)) =
             {k. k \<noteq> [] \<and> k \<in> (\<lambda>w. trim (site_name w)) ` set ws}"
    unfolding o route_keys_success set_new_Set by auto
  have d: "distinct (route_keys (getStaticPaths outcome))"
    unfolding o route_keys_success by (rule distinct_new_Set)
  show ?thesis
  proof (intro conjI ballI allI impI)
    show "distinct (route_keys (getStaticPaths outcome))" by (rule d)
  next
    fix k assume "k \<in> set (route_keys (getStaticPaths outcome))"
    with k o show "k \<noteq> []" by simp
  next
    fix k assume "k \<in> set (route_keys (getStaticPaths outcome))"
    with k o
    show "\<exists>ws w. outcome = Resolved (Some ws) None \<and> w \<in> set ws \<and> k = trim (site_name w)"
      by auto
  next
    fix ws' w
    assume a: "outcome = Resolved (Some ws') None \<and> w \<in> set ws' \<and> trim (site_name w) \<noteq> []"
    with o have "ws' = ws" by simp
    with a k have "trim (site_name w) \<in> set (route_keys (getStaticPaths outcome))" by auto
    with d show "count_list (route_keys (getStaticPaths outcome)) (trim (site_name w)) = 1"
      by (rule count_list_distinct)
  qed
next
  case False
  then have "route_keys (getStaticPaths outcome) = []" by (simp add: route_keys_failure)
  with False show ?thesis by auto
qed

theorem getStaticPaths_route_keys_witness:
  "route_keys (getStaticPaths (Resolved (Some
      [\<lparr>site_name = ascii '' a ''\<rparr>, \<lparr>site_name = ascii ''a''\<rparr>, \<lparr>site_name = ascii ''  ''\<rparr>,
       \<lparr>site_name = ascii ''b''\<rparr>]) None)) = [ascii ''a'', ascii ''b''] \<and>
   count_list (route_keys (getStaticPaths (Resolved (Some
      [\<lparr>site_name = ascii '' a ''\<rparr>, \<lparr>site_name = ascii ''a''\<rparr>, \<lparr>site_name = ascii ''  ''\<rparr>,
       \<lparr>site_name = ascii ''b''\<rparr>]) None))) (trim (site_name \<lparr>site_name = ascii '' a ''\<rparr>)) = 1"
  using getStaticPaths_route_keys [of "Resolved (Some
      [\<lparr>site_name = ascii '' a ''\<rparr>, \<lparr>site_name = ascii ''a''\<rparr>, \<lparr>site_name = ascii ''  ''\<rparr>,
       \<lparr>site_name = ascii ''b''\<rparr>]) None"]
  by (simp add: route_keys_success new_Set_def Set_add_def trim_def ascii_def
      isWhiteSpaceOrLineTerminator_def)

text \<open>
  C6. A rejected query, a query that resolves with an error (whatever data comes with
  it), a null result set and an empty result set all give the empty route set with the
  fallback policy \<open>'blocking'\<close>, and every result has that same fallback policy.
\<close>

theorem getStaticPaths_degrades:
  "getStaticPaths Rejected = \<lparr>paths = [], fallback = Blocking\<rparr> \<and>
   getStaticPaths (Resolved ws (Some e)) = \<lparr>paths = [], fallback = Blocking\<rparr> \<and>
   getStaticPaths (Resolved None None) = \<lparr>paths = [], fallback = Blocking\<rparr> \<and>
   getStaticPaths (Resolved (Some []) None) = \<lparr>paths = [], fallback = Blocking\<rparr> \<and>
   fallback (getStaticPaths outcome) = Blocking"
  by (simp add: getStaticPaths_def Array_from_def new_Set_def
      split: query_outcome.splits option.splits)

section \<open>Per-route prop resolution\<close>

text \<open>
  C3, amended. For a supplied route key whose website query resolves to a row without
  error: when the terms-of-service query resolves with an error (whatever data comes with
  it, no matching row included), the result is a props bundle with that website row and
  no terms of service, neither \<open>notFound\<close> nor a throw; when the terms-of-service query
  rejects, the \<open>catch\<close> block makes the result \<open>notFound\<close>.
\<close>

theorem getStaticProps_terms_error:
  assumes "truthy (Str s)" and "from_websites s = Resolved (Some w) None"
  shows "(\<forall>d e. from_terms_of_service (row_id w) = Resolved d (Some e) \<longrightarrow>
            getStaticProps from_websites from_terms_of_service (Some \<lparr>query_slug = Some s\<rparr>) =
              props_bundle \<lparr>website = w, termsOfService = None\<rparr> None) \<and>
         (from_terms_of_service (row_id w) = Rejected \<longrightarrow>
            getStaticProps from_websites from_terms_of_service (Some \<lparr>query_slug = Some s\<rparr>) =
              notFound)"
  using assms by (simp add: getStaticProps_def)

theorem getStaticProps_terms_error_witness:
  "truthy (Str (ascii ''Example'')) \<and>
   (\<lambda>s. Resolved (Some example_website) None) (ascii ''Example'') =
     Resolved (Some example_website) None \<and>
   (\<lambda>i. Resolved None (Some \<lparr>message = ascii ''no rows''\<rparr>)) (row_id example_website) =
     Resolved (None :: nat tos_row option) (Some \<lparr>message = ascii ''no rows''\<rparr>) \<and>
   getStaticProps (\<lambda>s. Resolved (Some example_website) None)
     (\<lambda>i. Resolved None (Some \<lparr>message = ascii ''no rows''\<rparr>))
     (Some \<lparr>query_slug = Some (ascii ''Example'')\<rparr>) =
     props_bundle \<lparr>website = example_website, termsOfService = None\<rparr> None \<and>
   (\<lambda>i. Rejected :: nat tos_row query_outcome) (row_id example_website) = Rejected \<and>
   getStaticProps (\<lambda>s. Resolved (Some example_website) None)
     (\<lambda>i. Rejected :: nat tos_row query_outcome)
     (Some \<lparr>query_slug = Some (ascii ''Example'')\<rparr>) = notFound"
proof -
  have t: "truthy (Str (ascii ''Example''))" by (simp add: ascii_def)
  have w: "(\<lambda>s. Resolved (Some example_website) None) (ascii ''Example'') =
     Resolved (Some example_website) None" by simp
  from getStaticProps_terms_error [OF t w,
      of "\<lambda>i. Resolved None (Some \<lparr>message = ascii ''no rows''\<rparr>)"]
    getStaticProps_terms_error [OF t w, of "\<lambda>i. Rejected"] t
  show ?thesis by simp
qed

text \<open>
  C3 as stated fails for a terms-of-service fetch that fails by rejecting: the website
  query finds the row, the terms-of-service query rejects, and the result is \<open>notFound\<close>.
\<close>

theorem getStaticProps_terms_rejected:
  "getStaticProps
     (\<lambda>s. Resolved (Some (example_website\<lparr>site_name := ascii ''Other''\<rparr>)) None)
     (\<lambda>i. Rejected :: nat tos_row query_outcome)
     (Some \<lparr>query_slug = Some (ascii ''Other'')\<rparr>) = notFound"
  by (simp add: getStaticProps_def ascii_def)

text \<open>
  C4, at the input where it fails: the website query finds the row and the
  terms-of-service query resolves with an error. The bundle returned there has no
  \<open>revalidate\<close> field, while the bundle of the path without error has 18000.
\<close>

theorem getStaticProps_terms_error_no_revalidate:
  "getStaticProps (\<lambda>s. Resolved (Some example_website) None)
     (\<lambda>i. Resolved (None :: nat tos_row option) (Some \<lparr>message = ascii ''timeout''\<rparr>))
     (Some \<lparr>query_slug = Some (ascii ''Example'')\<rparr>) =
     props_bundle \<lparr>website = example_website, termsOfService = None\<rparr> None \<and>
   getStaticProps (\<lambda>s. Resolved (Some example_website) None)
     (\<lambda>i. Resolved (Some (example_terms None)) None)
     (Some \<lparr>query_slug = Some (ascii ''Example'')\<rparr>) =
     props_bundle \<lparr>website = example_website, termsOfService = Some (example_terms None)\<rparr>
       (Some 18000)"
  by (simp add: getStaticProps_def ascii_def)

section \<open>The detail page\<close>

lemma parse_malformed:
  "simplified_content t = Some s \<Longrightarrow> JSON_parse pf s = Inl e \<Longrightarrow>
   parse_simplified_content pf (Some t) = Null"
  by (simp add: parse_simplified_content_def)

lemma parse_decoded:
  "simplified_content t = Some s \<Longrightarrow> truthy (Str s) \<Longrightarrow> JSON_parse pf s = Inr v \<Longrightarrow>
   parse_simplified_content pf (Some t) = v"
  by (simp add: parse_simplified_content_def)

lemma overview_falsy:
  "\<not> truthy c \<Longrightarrow> overview c = Inr (Element ''p'' [] [Text ''Loading content...''])"
  by (simp add: overview_def)

lemma details_Inr:
  "URL_host pf (url w) = Inr host \<Longrightarrow> \<exists>panel. details pf w t = Inr panel"
  by (simp add: details_def)

lemma elements_named_and_element:
  "elements_named n (and_element v f) =
     (case v of None \<Rightarrow> [] | Some s \<Rightarrow> if s = [] then [] else elements_named n (f s))"
  by (simp add: and_element_def split: option.splits)

lemma texts_and_element:
  "texts (and_element v f) =
     (case v of None \<Rightarrow> [] | Some s \<Rightarrow> if s = [] then [] else texts (f s))"
  by (simp add: and_element_def split: option.splits)

lemma details_no_p: "details pf w t = Inr panel \<Longrightarrow> elements_named ''p'' panel = []"
  by (auto simp: details_def elements_named_and_element split: sum.splits option.splits)

lemma details_no_li: "details pf w t = Inr panel \<Longrightarrow> elements_named ''li'' panel = []"
  by (auto simp: details_def elements_named_and_element split: sum.splits option.splits)

lemma WebsitePage_elements:
  "overview (parse_simplified_content pf t) = Inr prose \<Longrightarrow> details pf w t = Inr panel \<Longrightarrow>
   \<exists>page. WebsitePage pf (Some w) t = Inr page \<and>
     elements_named ''p'' page = elements_named ''p'' prose @ elements_named ''p'' panel \<and>
     elements_named ''li'' page = elements_named ''li'' prose @ elements_named ''li'' panel \<and>
     panel \<in> set (elements_named ''div'' page)"
  by (cases panel) (auto simp: WebsitePage_def elements_named_and_element details_def split: option.splits sum.splits)


text \<open>
  C2. When \<open>JSON.parse\<close> throws on the payload, the decoded summary is \<open>null\<close>, no error
  leaves the parsing, and the overview is the placeholder \<open>Loading content...\<close>. The
  component then does exactly what it does for the same record without a payload; every
  page it returns has that placeholder as its only paragraph; it returns a page whenever
  \<open>new URL\<close> accepts the url of the website; and whatever it throws is what \<open>new URL\<close>
  throws on that url, never the decoding error.
\<close>

theorem WebsitePage_malformed_payload:
  assumes "simplified_content t = Some s" and "JSON_parse pf s = Inl e"
  shows "parse_simplified_content pf (Some t) = Null \<and>
   overview (parse_simplified_content pf (Some t)) =
     Inr (Element ''p'' [] [Text ''Loading content...'']) \<and>
   (\<forall>w. WebsitePage pf w (Some t) = WebsitePage pf w (Some (t\<lparr>simplified_content := None\<rparr>))) \<and>
   (\<forall>w page. WebsitePage pf (Some w) (Some t) = Inr page \<longrightarrow>
      elements_named ''p'' page = [Element ''p'' [] [Text ''Loading content...'']]) \<and>
   (\<forall>w host. URL_host pf (url w) = Inr host \<longrightarrow>
      (\<exists>page. WebsitePage pf (Some w) (Some t) = Inr page)) \<and>
   (\<forall>w err. WebsitePage pf (Some w) (Some t) = Inl err \<longrightarrow> URL_host pf (url w) = Inl err)"
proof -
  have n: "parse_simplified_content pf (Some t) = Null"
    using assms by (rule parse_malformed)
  have o: "overview (parse_simplified_content pf (Some t)) =
     Inr (Element ''p'' [] [Text ''Loading content...''])"
    unfolding n by (simp add: overview_falsy)
  have n': "parse_simplified_content pf (Some (t\<lparr>simplified_content := None\<rparr>)) = Null"
    by (simp add: parse_simplified_content_def)
  have same: "\<forall>w. WebsitePage pf w (Some t) =
                  WebsitePage pf w (Some (t\<lparr>simplified_content := None\<rparr>))"
  proof
    fix w
    have d: "details pf a (Some (t\<lparr>simplified_content := None\<rparr>)) = details pf a (Some t)"
      for a :: "'a website_row"
      by (cases "URL_host pf (url a)") (simp_all add: details_def)
    show "WebsitePage pf w (Some t) = WebsitePage pf w (Some (t\<lparr>simplified_content := None\<rparr>))"
      by (cases w) (simp_all add: WebsitePage_def n n' d overview_def)
  qed
  have only: "\<forall>w page. WebsitePage pf (Some w) (Some t) = Inr page \<longrightarrow>
      elements_named ''p'' page = [Element ''p'' [] [Text ''Loading content...'']]"
  proof (intro allI impI)
    fix w :: "'a website_row" and page
    assume g: "WebsitePage pf (Some w) (Some t) = Inr page"
    then obtain panel where p: "details pf w (Some t) = Inr panel"
      by (auto simp: WebsitePage_def split: sum.splits)
    from WebsitePage_elements [OF o p] g details_no_p [OF p]
    show "elements_named ''p'' page = [Element ''p'' [] [Text ''Loading content...'']]"
      by auto
  qed
  have total: "\<forall>w host. URL_host pf (url w) = Inr host \<longrightarrow>
      (\<exists>page. WebsitePage pf (Some w) (Some t) = Inr page)"
  proof (intro allI impI)
    fix w :: "'a website_row" and host
    assume "URL_host pf (url w) = Inr host"
    then obtain panel where p: "details pf w (Some t) = Inr panel"
      using details_Inr by blast
    from WebsitePage_elements [OF o p]
    show "\<exists>page. WebsitePage pf (Some w) (Some t) = Inr page" by blast
  qed
  have cause: "\<forall>w err. WebsitePage pf (Some w) (Some t) = Inl err \<longrightarrow>
      URL_host pf (url w) = Inl err"
    using o by (auto simp: WebsitePage_def details_def split: sum.splits)
  show ?thesis
    by (intro conjI n o same only total cause)
qed

theorem WebsitePage_malformed_payload_witness:
  "simplified_content (example_terms (Some (ascii ''{''))) = Some (ascii ''{'') \<and>
   JSON_parse example_platform (ascii ''{'') = Inl SyntaxError \<and>
   URL_host example_platform (url example_website) = Inr (ascii ''example.com'') \<and>
   parse_simplified_content example_platform (Some (example_terms (Some (ascii ''{'')))) = Null \<and>
   (\<exists>page. WebsitePage example_platform (Some example_website)
              (Some (example_terms (Some (ascii ''{'')))) = Inr page \<and>
      elements_named ''p'' page = [Element ''p'' [] [Text ''Loading content...'']])"
proof -
  have a: "simplified_content (example_terms (Some (ascii ''{''))) = Some (ascii ''{'')"
    by (simp add: example_terms_def)
  have b: "JSON_parse example_platform (ascii ''{'') = Inl SyntaxError"
    by (simp add: example_platform_def example_payload_def ascii_def)
  have c: "URL_host example_platform (url example_website) = Inr (ascii ''example.com'')"
    by (simp add: example_platform_def example_website_def)
  note r = WebsitePage_malformed_payload [OF a b]
  from r have n: "parse_simplified_content example_platform
                    (Some (example_terms (Some (ascii ''{'')))) = Null"
    by (elim conjE)
  from r c obtain page where
    g: "WebsitePage example_platform (Some example_website)
          (Some (example_terms (Some (ascii ''{'')))) = Inr page"
    by (elim conjE allE [of _ example_website] allE [of _ "ascii ''example.com''"] impE exE)
  from r g have "elements_named ''p'' page = [Element ''p'' [] [Text ''Loading content...'']]"
    by (elim conjE) simp
  with a b c n g show ?thesis by (intro conjI exI [of _ page])
qed

lemma Object_entries_Inr_iff:
  "(\<exists>es. Object_entries v = Inr es) \<longleftrightarrow> v \<noteq> Undefined \<and> v \<noteq> Null"
  by (cases v) simp_all

lemma call_map_Inr_iff: "(\<exists>ys. call_map v f = Inr ys) \<longleftrightarrow> (\<exists>xs. v = Arr xs)"
  by (cases v) simp_all

lemma member_truthy: "truthy c \<Longrightarrow> \<exists>v. member c k = Inr v"
  by (cases c) simp_all

lemma overview_returns_iff:
  "(\<exists>prose. overview c = Inr prose) \<longleftrightarrow>
   (\<not> truthy c \<or>
    (\<exists>summary xs. member c (ascii ''summary'') = Inr summary \<and> summary \<noteq> Undefined \<and>
       summary \<noteq> Null \<and> member c (ascii ''potentialDangers'') = Inr (Arr xs)))"
proof (cases "truthy c")
  case False
  then show ?thesis by (simp add: overview_falsy)
next
  case True
  obtain summary where s: "member c (ascii ''summary'') = Inr summary"
    using member_truthy [OF True] by blast
  obtain dangers where d: "member c (ascii ''potentialDangers'') = Inr dangers"
    using member_truthy [OF True] by blast
  obtain assessment where a: "member c (ascii ''overallAssessment'') = Inr assessment"
    using member_truthy [OF True] by blast
  have "(\<exists>prose. overview c = Inr prose) \<longleftrightarrow>
        (\<exists>es. Object_entries summary = Inr es) \<and> (\<exists>ys. call_map dangers danger_item = Inr ys)"
    using True s d a by (auto simp: overview_def split: sum.splits)
  then show ?thesis
    using True s d by (simp add: Object_entries_Inr_iff call_map_Inr_iff)
qed

lemma WebsitePage_Inr_iff:
  "(\<exists>page. WebsitePage pf (Some w) t = Inr page) \<longleftrightarrow>
   (\<exists>prose. overview (parse_simplified_content pf t) = Inr prose) \<and>
   (\<exists>host. URL_host pf (url w) = Inr host)"
  by (auto simp: WebsitePage_def details_def split: sum.splits)

text \<open>
  C5, amended. Without a website the not-found view is returned. With one, the component
  returns a tree exactly when \<open>new URL\<close> accepts its url and the decoded summary is falsy
  or has a \<open>summary\<close> that is neither \<open>undefined\<close> nor \<open>null\<close> and a
  \<open>potentialDangers\<close> that is an array; \<open>overallAssessment\<close> may be missing.
\<close>

theorem WebsitePage_returns_iff:
  "WebsitePage pf None t = Inr (Element ''NotFound'' [] []) \<and>
   ((\<exists>page. WebsitePage pf (Some w) t = Inr page) \<longleftrightarrow>
    (\<not> truthy (parse_simplified_content pf t) \<or>
     (\<exists>summary xs.
        member (parse_simplified_content pf t) (ascii ''summary'') = Inr summary \<and>
        summary \<noteq> Undefined \<and> summary \<noteq> Null \<and>
        member (parse_simplified_content pf t) (ascii ''potentialDangers'') = Inr (Arr xs))) \<and>
    (\<exists>host. URL_host pf (url w) = Inr host))"
  unfolding WebsitePage_Inr_iff overview_returns_iff by (simp add: WebsitePage_def)

theorem WebsitePage_returns_iff_witness:
  "(\<exists>page. WebsitePage example_platform (Some example_website)
      (Some (example_terms (Some example_payload))) = Inr page) \<and>
   (\<exists>page. WebsitePage example_platform (Some example_website)
      (Some (example_terms (Some (ascii ''{'')))) = Inr page) \<and>
   (\<nexists>page. WebsitePage example_platform (Some example_website)
      (Some (example_terms (Some (ascii ''{}'')))) = Inr page)"
proof -
  have h: "URL_host example_platform (url example_website) = Inr (ascii ''example.com'')"
    by (simp add: example_platform_def example_website_def)
  have 1: "parse_simplified_content example_platform (Some (example_terms (Some example_payload)))
             = example_content"
    by (simp add: parse_simplified_content_def example_terms_def example_platform_def
        example_payload_def ascii_def)
  have 2: "parse_simplified_content example_platform (Some (example_terms (Some (ascii ''{''))))
             = Null"
    by (simp add: parse_simplified_content_def example_terms_def example_platform_def
        example_payload_def ascii_def)
  have 3: "parse_simplified_content example_platform (Some (example_terms (Some (ascii ''{}''))))
             = Obj []"
    by (simp add: parse_simplified_content_def example_terms_def example_platform_def
        example_payload_def ascii_def)
  have m: "member example_content (ascii ''summary'') =
             Inr (Obj [(ascii ''scope'', Str (ascii ''broad''))])"
          "member example_content (ascii ''potentialDangers'') =
             Inr (Arr [Str (ascii ''data sharing'')])"
    by (simp_all add: example_content_def ascii_def)
  show ?thesis
    using WebsitePage_returns_iff [of example_platform
            "Some (example_terms (Some example_payload))" example_website]
          WebsitePage_returns_iff [of example_platform
            "Some (example_terms (Some (ascii ''{'')))" example_website]
          WebsitePage_returns_iff [of example_platform
            "Some (example_terms (Some (ascii ''{}'')))" example_website]
    unfolding 1 2 3 using h m by simp
qed

text \<open>
  C5 as stated fails: the component throws for a url that is not a URL, and for the
  payload \<open>{}\<close>, which decodes to an object without \<open>summary\<close>.
\<close>

theorem WebsitePage_throws:
  "WebsitePage example_platform (Some (example_website\<lparr>url := ascii ''not a url''\<rparr>)) None =
     Inl TypeError \<and>
   WebsitePage example_platform (Some example_website)
     (Some (example_terms (Some (ascii ''{}'')))) = Inl TypeError"
  by (simp add: WebsitePage_def parse_simplified_content_def overview_def details_def
      example_platform_def example_website_def example_terms_def example_payload_def ascii_def)


lemma WebsitePage_Inr_parts:
  "WebsitePage pf (Some w) t = Inr page \<Longrightarrow>
   \<exists>prose panel. overview (parse_simplified_content pf t) = Inr prose \<and>
      details pf w t = Inr panel"
  by (auto simp: WebsitePage_def split: sum.splits)

lemma WebsitePage_page_unique:
  "overview (parse_simplified_content pf t) = Inr prose \<Longrightarrow> details pf w t = Inr panel \<Longrightarrow>
   WebsitePage pf (Some w) t = Inr page \<Longrightarrow>
   elements_named ''p'' page = elements_named ''p'' prose @ elements_named ''p'' panel \<and>
   elements_named ''li'' page = elements_named ''li'' prose @ elements_named ''li'' panel \<and>
   panel \<in> set (elements_named ''div'' page)"
  using WebsitePage_elements [of pf t prose w panel] by auto

lemma overview_example:
  "overview (Obj
     [(ascii ''summary'', Obj [(ascii ''scope'', Str (ascii ''broad''))]),
      (ascii ''potentialDangers'', Arr [Str (ascii ''data sharing'')]),
      (ascii ''overallAssessment'', Str (ascii ''risky''))]) =
   Inr (Fragment
     [Element ''h3'' [] [Text ''Summary''],
      Nodes [Element ''p'' [(''key'', Str (ascii ''scope''))]
               [Element ''strong'' [] [Expr (Str (ascii ''scope'')), Text '':''], Text '' '',
                Expr (Str (ascii ''broad''))]],
      Element ''h3'' [] [Text ''Potential Dangers''],
      Element ''ul'' [] [Nodes [Element ''li'' [(''key'', Num (Finite False 0 0))]
                                 [Expr (Str (ascii ''data sharing''))]]],
      Element ''h3'' [] [Text ''Overall Assessment''],
      Element ''p'' [] [Expr (Str (ascii ''risky''))]])"
  by (simp add: overview_def summary_entry_def danger_item_def ascii_def)

text \<open>
  C7. When the payload decodes to the summary with section \<open>scope\<close>: \<open>broad\<close>, danger
  \<open>data sharing\<close> and assessment \<open>risky\<close>, every page the component returns has exactly
  the paragraphs \<open>scope: broad\<close> and \<open>risky\<close> and the list item \<open>data sharing\<close>; and a
  page is returned whenever \<open>new URL\<close> accepts the url of the website.
\<close>

theorem WebsitePage_shows_summary:
  assumes "simplified_content t = Some s" and "truthy (Str s)"
    and "JSON_parse pf s = Inr (Obj
     [(ascii ''summary'', Obj [(ascii ''scope'', Str (ascii ''broad''))]),
      (ascii ''potentialDangers'', Arr [Str (ascii ''data sharing'')]),
      (ascii ''overallAssessment'', Str (ascii ''risky''))])"
  shows "(\<forall>host. URL_host pf (url w) = Inr host \<longrightarrow>
            (\<exists>page. WebsitePage pf (Some w) (Some t) = Inr page)) \<and>
         (\<forall>page. WebsitePage pf (Some w) (Some t) = Inr page \<longrightarrow>
            elements_named ''p'' page =
              [Element ''p'' [(''key'', Str (ascii ''scope''))]
                 [Element ''strong'' [] [Expr (Str (ascii ''scope'')), Text '':''], Text '' '',
                  Expr (Str (ascii ''broad''))],
               Element ''p'' [] [Expr (Str (ascii ''risky''))]] \<and>
            elements_named ''li'' page =
              [Element ''li'' [(''key'', Num (Finite False 0 0))]
                 [Expr (Str (ascii ''data sharing''))]])"
proof (intro conjI allI impI)
  have c: "parse_simplified_content pf (Some t) = Obj
     [(ascii ''summary'', Obj [(ascii ''scope'', Str (ascii ''broad''))]),
      (ascii ''potentialDangers'', Arr [Str (ascii ''data sharing'')]),
      (ascii ''overallAssessment'', Str (ascii ''risky''))]"
    using assms by (rule parse_decoded)
  note o = overview_example [folded c]
  {
    fix host assume "URL_host pf (url w) = Inr host"
    then show "\<exists>page. WebsitePage pf (Some w) (Some t) = Inr page"
      using o by (auto simp: WebsitePage_Inr_iff)
  }
  fix page assume p: "WebsitePage pf (Some w) (Some t) = Inr page"
  then obtain panel where d: "details pf w (Some t) = Inr panel"
    using WebsitePage_Inr_parts by blast
  from WebsitePage_page_unique [OF o d p] details_no_p [OF d] details_no_li [OF d]
  show "elements_named ''p'' page =
              [Element ''p'' [(''key'', Str (ascii ''scope''))]
                 [Element ''strong'' [] [Expr (Str (ascii ''scope'')), Text '':''], Text '' '',
                  Expr (Str (ascii ''broad''))],
               Element ''p'' [] [Expr (Str (ascii ''risky''))]]"
    and "elements_named ''li'' page =
              [Element ''li'' [(''key'', Num (Finite False 0 0))]
                 [Expr (Str (ascii ''data sharing''))]]"
    by simp_all
qed

theorem WebsitePage_shows_summary_witness:
  "simplified_content (example_terms (Some example_payload)) = Some example_payload \<and>
   truthy (Str example_payload) \<and>
   JSON_parse example_platform example_payload = Inr (Obj
     [(ascii ''summary'', Obj [(ascii ''scope'', Str (ascii ''broad''))]),
      (ascii ''potentialDangers'', Arr [Str (ascii ''data sharing'')]),
      (ascii ''overallAssessment'', Str (ascii ''risky''))]) \<and>
   (\<exists>page. WebsitePage example_platform (Some example_website)
              (Some (example_terms (Some example_payload))) = Inr page \<and>
      elements_named ''p'' page =
        [Element ''p'' [(''key'', Str (ascii ''scope''))]
           [Element ''strong'' [] [Expr (Str (ascii ''scope'')), Text '':''], Text '' '',
            Expr (Str (ascii ''broad''))],
         Element ''p'' [] [Expr (Str (ascii ''risky''))]] \<and>
      elements_named ''li'' page =
        [Element ''li'' [(''key'', Num (Finite False 0 0))]
           [Expr (Str (ascii ''data sharing''))]])"
proof -
  have a: "simplified_content (example_terms (Some example_payload)) = Some example_payload"
    by (simp add: example_terms_def)
  have b: "truthy (Str example_payload)"
    by (simp add: example_payload_def ascii_def)
  have c: "JSON_parse example_platform example_payload = Inr (Obj
     [(ascii ''summary'', Obj [(ascii ''scope'', Str (ascii ''broad''))]),
      (ascii ''potentialDangers'', Arr [Str (ascii ''data sharing'')]),
      (ascii ''overallAssessment'', Str (ascii ''risky''))])"
    by (simp add: example_platform_def example_content_def example_payload_def ascii_def)
  have h: "URL_host example_platform (url example_website) = Inr (ascii ''example.com'')"
    by (simp add: example_platform_def example_website_def)
  from WebsitePage_shows_summary [OF a b c, of example_website] h a b c
  show ?thesis by blast
qed


lemma truthy_nullable: "truthy (nullable v) \<longleftrightarrow> (\<exists>s. v = Some s \<and> s \<noteq> [])"
  by (cases v) simp_all

text \<open>
  C8, amended. When \<open>new URL\<close> accepts the url of the website, the details panel is built
  and is part of every page returned. It always has the website row and the
  terms-of-service row, whose link goes to \<open>tos_url\<close> of the record, or to the empty
  string without a record or without a \<open>tos_url\<close>. It has the category row exactly when
  the category is present and not empty, and the last-crawled row exactly when the
  timestamp is present and not empty, showing its locale date string.
\<close>

theorem details_panel_rows:
  assumes "URL_host pf (url w) = Inr host"
  shows "\<exists>panel. details pf w t = Inr panel \<and>
     (\<forall>page. WebsitePage pf (Some w) t = Inr page \<longrightarrow> panel \<in> set (elements_named ''div'' page)) \<and>
     texts panel =
       [''Details'', ''Website'', ''Terms of Service'', ''View''] @
       (if truthy (nullable (category w)) then [''Category''] else []) @
       (if truthy (nullable (last_crawled w)) then [''Last Crawled''] else []) \<and>
     map (attribute ''href'') (elements_named ''a'' panel) =
       [Some (Str (url w)),
        Some (case t of None \<Rightarrow> Str []
              | Some r \<Rightarrow> (case tos_url r of None \<Rightarrow> Str [] | Some u \<Rightarrow> Str u))] \<and>
     (\<forall>c. category w = Some c \<and> c \<noteq> [] \<longrightarrow>
        Element ''span'' [] [Expr (Str c)] \<in> set (elements_named ''span'' panel)) \<and>
     (\<forall>d. last_crawled w = Some d \<and> d \<noteq> [] \<longrightarrow>
        Element ''span'' [] [Expr (Str (Date_toLocaleDateString pf d))]
          \<in> set (elements_named ''span'' panel))"
proof -
  obtain panel where p: "details pf w t = Inr panel"
    using details_Inr [OF assms] by blast
  have 1: "\<forall>page. WebsitePage pf (Some w) t = Inr page \<longrightarrow> panel \<in> set (elements_named ''div'' page)"
  proof (intro allI impI)
    fix page assume g: "WebsitePage pf (Some w) t = Inr page"
    then obtain prose where "overview (parse_simplified_content pf t) = Inr prose"
      using WebsitePage_Inr_parts by blast
    from WebsitePage_page_unique [OF this p g] show "panel \<in> set (elements_named ''div'' page)"
      by simp
  qed
  have 2: "texts panel =
       [''Details'', ''Website'', ''Terms of Service'', ''View''] @
       (if truthy (nullable (category w)) then [''Category''] else []) @
       (if truthy (nullable (last_crawled w)) then [''Last Crawled''] else [])"
    using p assms
    by (auto simp: details_def texts_and_element truthy_nullable split: option.splits)
  have 3: "map (attribute ''href'') (elements_named ''a'' panel) =
       [Some (Str (url w)),
        Some (case t of None \<Rightarrow> Str []
              | Some r \<Rightarrow> (case tos_url r of None \<Rightarrow> Str [] | Some u \<Rightarrow> Str u))]"
    using p assms
    by (auto simp: details_def elements_named_and_element or_else_def split: option.splits)
  have 4: "\<forall>c. category w = Some c \<and> c \<noteq> [] \<longrightarrow>
        Element ''span'' [] [Expr (Str c)] \<in> set (elements_named ''span'' panel)"
    using p assms by (auto simp: details_def elements_named_and_element split: option.splits)
  have 5: "\<forall>d. last_crawled w = Some d \<and> d \<noteq> [] \<longrightarrow>
        Element ''span'' [] [Expr (Str (Date_toLocaleDateString pf d))]
          \<in> set (elements_named ''span'' panel)"
    using p assms by (auto simp: details_def elements_named_and_element split: option.splits)
  show ?thesis
    by (rule exI [of _ panel]) (intro conjI p 1 2 3 4 5)
qed

theorem details_panel_rows_witness:
  "URL_host example_platform (url example_website) = Inr (ascii ''example.com'') \<and>
   (\<exists>panel. details example_platform example_website (Some (example_terms None)) = Inr panel \<and>
      texts panel =
        [''Details'', ''Website'', ''Terms of Service'', ''View'', ''Category'', ''Last Crawled''] \<and>
      map (attribute ''href'') (elements_named ''a'' panel) =
        [Some (Str (ascii ''https://example.com/'')),
         Some (Str (ascii ''https://example.com/terms''))] \<and>
      Element ''span'' [] [Expr (Str (ascii ''tools''))] \<in> set (elements_named ''span'' panel) \<and>
      Element ''span'' [] [Expr (Str (ascii ''1/2/2024''))] \<in> set (elements_named ''span'' panel))"
proof -
  have h: "URL_host example_platform (url example_website) = Inr (ascii ''example.com'')"
    by (simp add: example_platform_def example_website_def)
  have c: "category example_website = Some (ascii ''tools'')" "ascii ''tools'' \<noteq> []"
    "last_crawled example_website = Some (ascii ''2024-01-02T00:00:00Z'')"
    "ascii ''2024-01-02T00:00:00Z'' \<noteq> []"
    "url example_website = ascii ''https://example.com/''"
    "tos_url (example_terms None) = Some (ascii ''https://example.com/terms'')"
    "Date_toLocaleDateString example_platform (ascii ''2024-01-02T00:00:00Z'') = ascii ''1/2/2024''"
    by (simp_all add: example_website_def example_terms_def example_platform_def ascii_def)
  from details_panel_rows [OF h, of "Some (example_terms None)"] obtain panel where P:
    "details example_platform example_website (Some (example_terms None)) = Inr panel \<and>
     (\<forall>page. WebsitePage example_platform (Some example_website) (Some (example_terms None)) =
        Inr page \<longrightarrow> panel \<in> set (elements_named ''div'' page)) \<and>
     texts panel =
       [''Details'', ''Website'', ''Terms of Service'', ''View''] @
       (if truthy (nullable (category example_website)) then [''Category''] else []) @
       (if truthy (nullable (last_crawled example_website)) then [''Last Crawled''] else []) \<and>
     map (attribute ''href'') (elements_named ''a'' panel) =
       [Some (Str (url example_website)),
        Some (case Some (example_terms None) of None \<Rightarrow> Str []
              | Some r \<Rightarrow> (case tos_url r of None \<Rightarrow> Str [] | Some u \<Rightarrow> Str u))] \<and>
     (\<forall>c. category example_website = Some c \<and> c \<noteq> [] \<longrightarrow>
        Element ''span'' [] [Expr (Str c)] \<in> set (elements_named ''span'' panel)) \<and>
     (\<forall>d. last_crawled example_website = Some d \<and> d \<noteq> [] \<longrightarrow>
        Element ''span'' [] [Expr (Str (Date_toLocaleDateString example_platform d))]
          \<in> set (elements_named ''span'' panel))" ..
  with h c show ?thesis by (intro conjI exI [of _ panel]) simp_all
qed

text \<open>
  C8 as stated fails: without a terms-of-service record the page still has the
  terms-of-service row, with a link to the empty string.
\<close>

theorem WebsitePage_terms_link_without_record:
  "(case WebsitePage example_platform (Some example_website) None of
      Inl e \<Rightarrow> False
    | Inr page \<Rightarrow>
        ''Terms of Service'' \<in> set (texts page) \<and>
        map (attribute ''href'') (elements_named ''a'' page) =
          [Some (Str (ascii ''https://example.com/'')), Some (Str [])])"
  by (simp add: WebsitePage_def parse_simplified_content_def overview_def details_def
      and_element_def or_else_def
      example_platform_def example_website_def ascii_def)

section \<open>The listing\<close>

lemma map_throwing_all:
  "(\<And>x. x \<in> set xs \<Longrightarrow> f x = Inr (g x)) \<Longrightarrow> map_throwing f xs = Inr (map g xs)"
  by (induction xs) simp_all

lemma elements_named_jsx_and:
  "elements_named n (jsx_and v e) = (if truthy v then elements_named n e else [])"
  by (simp add: jsx_and_def)

lemma tile_card_observed:
  "elements_named ''h2'' (tile_card p) = []"
  "elements_named ''Link'' (tile_card p) = [tile_card p]"
  "attribute ''href'' (tile_card p) = Some (Str (ascii ''/websites/'' @ tile_slug p))"
  by (simp_all add: tile_card_def)

lemma concat_map_Nil: "(\<And>x. x \<in> set xs \<Longrightarrow> f x = []) \<Longrightarrow> concat (map f xs) = []"
  by (induction xs) simp_all

lemma links_of_cards:
  "concat (map (\<lambda>p. elements_named ''Link'' (tile_card p)) ws) = map tile_card ws"
  by (induction ws) (simp_all add: tile_card_observed)

text \<open>
  C9. For an object from categories to arrays of entities (its keys pairwise different),
  the grid called with \<open>hideCategories: true\<close> returns a tree with one section per
  category, none of which has a header (no \<open>h2\<close> anywhere in the tree), and whose grid
  has one link card per entity of the category, in order, each linking to
  \<open>/websites/\<close> followed by the slug of the entity.
\<close>

theorem WebsiteTileGrid_hidden_categories:
  assumes "distinct (map fst websitesByCategory)"
  shows "\<exists>tree. WebsiteTileGrid pf websitesByCategory (Some True) = Inr tree \<and>
     tree = Fragment [Nodes (map (\<lambda>(category, ws).
              Element ''div''
                [(''key'', Str category), (''id'', Str (String_toLowerCase pf category))]
                [Expr (Bool False), Element ''div'' [] [Nodes (map tile_card ws)]])
              websitesByCategory)] \<and>
     elements_named ''h2'' tree = [] \<and>
     elements_named ''Link'' tree = map tile_card (concat (map snd websitesByCategory)) \<and>
     map (attribute ''href'') (elements_named ''Link'' tree) =
       map (\<lambda>p. Some (Str (ascii ''/websites/'' @ tile_slug p)))
         (concat (map snd websitesByCategory))"
proof -
  let ?section = "\<lambda>(category, ws).
              Element ''div''
                [(''key'', Str category), (''id'', Str (String_toLowerCase pf category))]
                [Expr (Bool False), Element ''div'' [] [Nodes (map tile_card ws)]]"
  let ?tree = "Fragment [Nodes (map ?section websitesByCategory)]"
  have look: "map_of websitesByCategory c = Some ws" if "(c, ws) \<in> set websitesByCategory" for c ws
    using assms that by simp
  have "map_throwing (\<lambda>category.
              (case map_of websitesByCategory category of
                 None \<Rightarrow> Inl TypeError
               | Some ws \<Rightarrow>
                   Inr (Element ''div''
                     [(''key'', Str category), (''id'', Str (String_toLowerCase pf category))]
                     [jsx_and (Bool (\<not> True)) (Element ''h2'' [] [Expr (Str category)]),
                      Element ''div'' [] [Nodes (map tile_card ws)]])))
            (map fst websitesByCategory) = Inr (map (\<lambda>c. ?section (c, the (map_of websitesByCategory c))) (map fst websitesByCategory))"
    by (rule map_throwing_all) (auto simp: jsx_and_def look)
  also have "map (\<lambda>c. ?section (c, the (map_of websitesByCategory c))) (map fst websitesByCategory)
       = map ?section websitesByCategory"
    by (auto simp: look)
  finally have r: "WebsiteTileGrid pf websitesByCategory (Some True) = Inr ?tree"
    by (simp add: WebsiteTileGrid_def Object_keys_def)
  have h2: "elements_named ''h2'' ?tree = []"
    by (auto simp: tile_card_observed intro!: concat_map_Nil)
  have links: "elements_named ''Link'' ?tree = map tile_card (concat (map snd websitesByCategory))"
    by (induction websitesByCategory)
       (auto simp: comp_def links_of_cards)
  have hrefs: "map (attribute ''href'') (elements_named ''Link'' ?tree) =
       map (\<lambda>p. Some (Str (ascii ''/websites/'' @ tile_slug p)))
         (concat (map snd websitesByCategory))"
    unfolding links by (simp add: tile_card_observed)
  show ?thesis
    by (rule exI [of _ ?tree]) (intro conjI r refl h2 links hrefs)
qed


section \<open>The layout wrapper\<close>

text \<open>
  C10. Without \<open>hideFooter\<close> the layout adds no footer to what its children hold, and
  without \<open>hideHeader\<close> it puts the navigation header first; whatever the arguments,
  the layout adds the footer, after its children, exactly when \<open>hideFooter\<close> is
  \<open>false\<close>.
\<close>

theorem Layout_defaults:
  "elements_named ''Footer'' (Layout hideHeader None children) =
     concat (map (elements_named ''Footer'') children) \<and>
   elements_named ''Nav'' (Layout None hideFooter children) =
     Element ''Nav'' [] [] # concat (map (elements_named ''Nav'') children) \<and>
   elements_named ''Footer'' (Layout hideHeader hideFooter children) =
     concat (map (elements_named ''Footer'') children) @
     (if hideFooter = Some False then [Element ''Footer'' [] []] else [])"
  by (auto simp: Layout_def elements_named_jsx_and split: option.splits)


theorem WebsiteTileGrid_hidden_categories_witness:
  "distinct (map fst
     [(ascii ''tools'', [example_tile ''alpha'', example_tile ''beta'']),
      (ascii ''news'', [example_tile ''gamma''])]) \<and>
   (\<exists>tree. WebsiteTileGrid example_platform
      [(ascii ''tools'', [example_tile ''alpha'', example_tile ''beta'']),
       (ascii ''news'', [example_tile ''gamma''])] (Some True) = Inr tree \<and>
     elements_named ''h2'' tree = [] \<and>
     map (attribute ''href'') (elements_named ''Link'' tree) =
       [Some (Str (ascii ''/websites/alpha'')), Some (Str (ascii ''/websites/beta'')),
        Some (Str (ascii ''/websites/gamma''))])"
proof -
  have d: "distinct (map fst
     [(ascii ''tools'', [example_tile ''alpha'', example_tile ''beta'']),
      (ascii ''news'', [example_tile ''gamma''])])"
    by (simp add: ascii_def)
  from WebsiteTileGrid_hidden_categories [OF d, of example_platform]
  obtain tree where
    t: "WebsiteTileGrid example_platform
          [(ascii ''tools'', [example_tile ''alpha'', example_tile ''beta'']),
           (ascii ''news'', [example_tile ''gamma''])] (Some True) = Inr tree"
    and h: "elements_named ''h2'' tree = []"
    and l: "map (attribute ''href'') (elements_named ''Link'' tree) =
       map (\<lambda>p. Some (Str (ascii ''/websites/'' @ tile_slug p)))
         (concat (map snd
           [(ascii ''tools'', [example_tile ''alpha'', example_tile ''beta'']),
            (ascii ''news'', [example_tile ''gamma''])]))"
    by (elim exE conjE)
  have "map (attribute ''href'') (elements_named ''Link'' tree) =
       [Some (Str (ascii ''/websites/alpha'')), Some (Str (ascii ''/websites/beta'')),
        Some (Str (ascii ''/websites/gamma''))]"
    unfolding l by (simp add: example_tile_def ascii_def)
  with d t h show ?thesis by (intro conjI exI [of _ tree])
qed

theorem Layout_defaults_witness:
  "elements_named ''Footer'' (Layout None None [Text ''page'']) = [] \<and>
   elements_named ''Nav'' (Layout None None [Text ''page'']) = [Element ''Nav'' [] []] \<and>
   elements_named ''Footer'' (Layout None (Some False) [Text ''page'']) =
     [Element ''Footer'' [] []] \<and>
   elements_named ''Footer'' (Layout None (Some True) [Text ''page'']) = []"
  using Layout_defaults [of None "[Text ''page'']" None]
    Layout_defaults [of None "[Text ''page'']" "Some False"]
    Layout_defaults [of None "[Text ''page'']" "Some True"]
  by simp

end
